theory Spec2Isabelle
  imports Main
begin

section \<open>The editing session of the typebot builder (TypebotContext.tsx)\<close>

text \<open>
  The component keeps three things apart: the bundle the fetch hook holds (the last
  loaded or persisted draft \<open>typebot\<close>, the \<open>publishedTypebot\<close>, the
  \<open>webhooks\<close>), the undo history with its \<open>present\<close> value (the working copy
  \<open>localTypebot\<close>) and the mutable cell \<open>currentTypebotRef\<close>. Every handler is a
  closure of one render: it sees the \<open>typebot\<close>, \<open>publishedTypebot\<close>,
  \<open>webhooks\<close> and \<open>localTypebot\<close> of that render, while the cell, the history and
  the flags are read and written as they are when the handler runs. The closure is
  the record \<open>render\<close>; the rest is the record \<open>state\<close>, passed explicitly.
\<close>

subsection \<open>Documents, snapshots, webhooks\<close>

type_synonym Graph = "nat list"
type_synonym Theme = nat
type_synonym Settings = nat

text \<open>
  Modelled from the spec: the package \<open>models\<close> that declares Typebot, PublicTypebot
  and Webhook is missing. The fields are the ones the component names (id, name,
  theme, settings, publicId, publishedTypebotId, customDomain), the content graph
  (blocks, variables, edges) and the owner the spec binds a Document to.
\<close>

record Typebot =
  id_tb :: string
  ownerId_tb :: string
  name_tb :: string
  blocks_tb :: Graph
  variables_tb :: Graph
  edges_tb :: Graph
  theme_tb :: Theme
  settings_tb :: Settings
  publicId_tb :: "string option"
  customDomain_tb :: "string option"
  publishedTypebotId_tb :: "string option"

record PublicTypebot =
  id_pub :: string
  typebotId_pub :: string
  name_pub :: string
  blocks_pub :: Graph
  variables_pub :: Graph
  edges_pub :: Graph
  theme_pub :: Theme
  settings_pub :: Settings
  publicId_pub :: "string option"
  customDomain_pub :: "string option"

record Webhook =
  id_wh :: string
  url_wh :: string

text \<open>\<open>Partial<Webhook>\<close>: a field that is \<open>None\<close> is a key the object does not have.\<close>

record WebhookUpdates =
  id_whu :: "string option"
  url_whu :: "string option"

text \<open>\<open>UpdateTypebotPayload\<close> (lines 41 to 47), a partial object as well.\<close>

record UpdateTypebotPayload =
  theme_upd :: "Theme option"
  settings_upd :: "Settings option"
  publicId_upd :: "string option"
  name_upd :: "string option"
  publishedTypebotId_upd :: "string option"

definition noUpdates :: UpdateTypebotPayload where
  "noUpdates =
     \<lparr>theme_upd = None, settings_upd = None, publicId_upd = None, name_upd = None,
      publishedTypebotId_upd = None\<rparr>"

text \<open>The object spread \<open>{ ...localTypebot, ...updates }\<close> of line 229.\<close>

definition spreadUpdates :: "Typebot \<Rightarrow> UpdateTypebotPayload \<Rightarrow> Typebot" where
  "spreadUpdates t u =
     t\<lparr>theme_tb := (case theme_upd u of None \<Rightarrow> theme_tb t | Some x \<Rightarrow> x),
       settings_tb := (case settings_upd u of None \<Rightarrow> settings_tb t | Some x \<Rightarrow> x),
       publicId_tb := (case publicId_upd u of None \<Rightarrow> publicId_tb t | Some x \<Rightarrow> Some x),
       name_tb := (case name_upd u of None \<Rightarrow> name_tb t | Some x \<Rightarrow> x),
       publishedTypebotId_tb :=
         (case publishedTypebotId_upd u of None \<Rightarrow> publishedTypebotId_tb t | Some x \<Rightarrow> Some x)\<rparr>"

subsection \<open>Collaborators\<close>

record error =
  name_err :: string
  message_err :: string

record toast =
  title :: string
  description :: string

text \<open>
  The calls that leave the component. The field \<open>requests\<close> of the state lists them in
  the order they are issued, so that "no write" and "exactly one write" are statements
  about that list.
\<close>

datatype request =
    UpdateTypebot string Typebot
  | CreatePublishedTypebot PublicTypebot
  | UpdatePublishedTypebot string PublicTypebot
  | SaveWebhook string WebhookUpdates

text \<open>
  What the collaborators answer: the store's responses (an error or none, the created
  snapshot, the saved webhook when the response carries data), the derived public
  identifier and the identity \<open>generate()\<close> returns.
\<close>

record env =
  updateTypebot :: "string \<Rightarrow> Typebot \<Rightarrow> error option"
  createPublishedTypebot :: "PublicTypebot \<Rightarrow> error + PublicTypebot"
  updatePublishedTypebot :: "string \<Rightarrow> PublicTypebot \<Rightarrow> error option"
  saveWebhook :: "string \<Rightarrow> WebhookUpdates \<Rightarrow> Webhook option"
  parseDefaultPublicId :: "string \<Rightarrow> string \<Rightarrow> string"
  generate :: string

text \<open>
  Modelled from the spec: \<open>parseTypebotToPublicTypebot\<close> of services/publicTypebot is
  missing. The spec calls it the projection of a Document onto its publication-relevant
  fields (content graph, theme, settings, public identifier). Both callers overwrite the
  identity of the result, so the one given here is never read.
\<close>

definition parseTypebotToPublicTypebot :: "Typebot \<Rightarrow> PublicTypebot" where
  "parseTypebotToPublicTypebot t =
     \<lparr>id_pub = [], typebotId_pub = id_tb t, name_pub = name_tb t,
      blocks_pub = blocks_tb t, variables_pub = variables_tb t, edges_pub = edges_tb t,
      theme_pub = theme_tb t, settings_pub = settings_tb t,
      publicId_pub = publicId_tb t, customDomain_pub = customDomain_tb t\<rparr>"

text \<open>
  Modelled from the spec: \<open>parsePublicTypebotToTypebot\<close> of services/publicTypebot is
  missing. The spec: a projection derived from the PublishedSnapshot, merged onto the
  current identity and owner-bound fields, which are never overwritten.
\<close>

definition parsePublicTypebotToTypebot :: "PublicTypebot \<Rightarrow> Typebot \<Rightarrow> Typebot" where
  "parsePublicTypebotToTypebot p existingTypebot =
     existingTypebot\<lparr>name_tb := name_pub p,
       blocks_tb := blocks_pub p, variables_tb := variables_pub p, edges_tb := edges_pub p,
       theme_tb := theme_pub p, settings_tb := settings_pub p,
       publicId_tb := publicId_pub p, customDomain_tb := customDomain_pub p\<rparr>"

text \<open>
  Modelled from the spec: \<open>checkIfTypebotsAreEqual\<close> of services/typebots is missing.
  The spec: deep value equality between two Document snapshots.
\<close>

definition checkIfTypebotsAreEqual :: "Typebot \<Rightarrow> Typebot \<Rightarrow> bool" where
  "checkIfTypebotsAreEqual a b = (a = b)"

text \<open>The publication-relevant fields of the spec, on both sides.\<close>

definition publicationFields ::
  "Typebot \<Rightarrow> Graph \<times> Graph \<times> Graph \<times> Theme \<times> Settings \<times> string option" where
  "publicationFields t =
     (blocks_tb t, variables_tb t, edges_tb t, theme_tb t, settings_tb t, publicId_tb t)"

definition snapshotFields ::
  "PublicTypebot \<Rightarrow> Graph \<times> Graph \<times> Graph \<times> Theme \<times> Settings \<times> string option" where
  "snapshotFields p =
     (blocks_pub p, variables_pub p, edges_pub p, theme_pub p, settings_pub p, publicId_pub p)"

subsection \<open>The state of a session and the closure of a render\<close>

record state =
  typebot :: "Typebot option"
  publishedTypebot :: "PublicTypebot option"
  webhooks :: "Webhook list option"
  owner :: "string option"
  isReadOnly :: "bool option"
  past :: "Typebot option list"
  present :: "Typebot option"
  future :: "Typebot option list"
  currentTypebotRef :: "Typebot option"
  isSavingLoading :: bool
  isPublishing :: bool
  beforeunload :: bool
  toasts :: "toast list"
  requests :: "request list"

record render =
  typebot_r :: "Typebot option"
  publishedTypebot_r :: "PublicTypebot option"
  webhooks_r :: "Webhook list option"
  localTypebot_r :: "Typebot option"

text \<open>The closure of the render that shows the state \<open>s\<close> (lines 99 to 126).\<close>

definition render :: "state \<Rightarrow> render" where
  "render s =
     \<lparr>typebot_r = typebot s, publishedTypebot_r = publishedTypebot s,
      webhooks_r = webhooks s, localTypebot_r = present s\<rparr>"

text \<open>
  \<open>mutate(data)\<close> of the fetch hook replaces the cached bundle by the object it is
  given: a key the object does not have (owner, isReadOnly, and publishedTypebot where
  the caller leaves it out) is undefined afterwards.
\<close>

definition mutate ::
  "Typebot option \<Rightarrow> PublicTypebot option \<Rightarrow> Webhook list \<Rightarrow> state \<Rightarrow> state" where
  "mutate t p ws s =
     s\<lparr>typebot := t, publishedTypebot := p, webhooks := Some ws,
       owner := None, isReadOnly := None\<rparr>"

text \<open>\<open>webhooks ?? []\<close>.\<close>

definition orEmpty :: "Webhook list option \<Rightarrow> Webhook list" where
  "orEmpty ws = (case ws of None \<Rightarrow> [] | Some l \<Rightarrow> l)"

text \<open>
  Modelled from the spec: \<open>useUndo\<close> of services/utils is missing. The spec:
  \<open>set(value)\<close> pushes the current value onto the past stack, replaces current and
  clears the future stack; the mutable reference holds the latest current value.
\<close>

definition setLocalTypebot :: "Typebot option \<Rightarrow> state \<Rightarrow> state" where
  "setLocalTypebot v s =
     s\<lparr>past := past s @ [present s], present := v, future := [],
       currentTypebotRef := v\<rparr>"

subsection \<open>The handlers\<close>

text \<open>
  \<open>saveTypebot\<close>, lines 128 to 141. \<open>deepEqual\<close> of fast-equals is structural
  equality, also of two undefined values.
\<close>

definition saveTypebot :: "env \<Rightarrow> render \<Rightarrow> state \<Rightarrow> state" where
  "saveTypebot e r s =
     (let typebotToSave = currentTypebotRef s in
      if typebot_r r = typebotToSave then s
      else (case typebotToSave of
        None \<Rightarrow> s
      | Some t \<Rightarrow>
          let s1 = s\<lparr>isSavingLoading := True\<rparr>;
              s2 = s1\<lparr>requests := requests s1 @ [UpdateTypebot (id_tb t) t]\<rparr>;
              s3 = s2\<lparr>isSavingLoading := False\<rparr>
          in (case updateTypebot e (id_tb t) t of
                Some err \<Rightarrow>
                  s3\<lparr>toasts := toasts s3 @
                     [\<lparr>title = name_err err, description = message_err err\<rparr>]\<rparr>
              | None \<Rightarrow>
                  (mutate (Some t) None (orEmpty (webhooks_r r)) s3)\<lparr>beforeunload := False\<rparr>)))"

text \<open>\<open>savePublishedTypebot\<close>, lines 143 to 156.\<close>

definition savePublishedTypebot :: "env \<Rightarrow> render \<Rightarrow> PublicTypebot \<Rightarrow> state \<Rightarrow> state" where
  "savePublishedTypebot e r newPublishedTypebot s =
     (let s1 = s\<lparr>isPublishing := True\<rparr>;
          s2 = s1\<lparr>requests := requests s1 @
                 [UpdatePublishedTypebot (id_pub newPublishedTypebot) newPublishedTypebot]\<rparr>;
          s3 = s2\<lparr>isPublishing := False\<rparr>
      in (case updatePublishedTypebot e (id_pub newPublishedTypebot) newPublishedTypebot of
            Some err \<Rightarrow>
              s3\<lparr>toasts := toasts s3 @
                 [\<lparr>title = name_err err, description = message_err err\<rparr>]\<rparr>
          | None \<Rightarrow>
              mutate (currentTypebotRef s3) (Some newPublishedTypebot) (orEmpty (webhooks_r r)) s3))"

text \<open>
  The unsaved-changes effect, lines 183 to 193. It runs after a render whose
  \<open>localTypebot\<close> differs from the one before; removing the listener and adding it
  again leaves it installed once.
\<close>

definition unsavedChangesEffect :: "render \<Rightarrow> state \<Rightarrow> state" where
  "unsavedChangesEffect r s =
     (case localTypebot_r r of
        None \<Rightarrow> s
      | Some localTypebot \<Rightarrow>
          (case typebot_r r of
             None \<Rightarrow> s
           | Some tb \<Rightarrow>
               let s1 = s\<lparr>currentTypebotRef := Some localTypebot\<rparr>
               in if \<not> checkIfTypebotsAreEqual localTypebot tb
                  then s1\<lparr>beforeunload := True\<rparr>
                  else s1\<lparr>beforeunload := False\<rparr>))"

text \<open>\<open>updateLocalTypebot\<close>, lines 228 and 229.\<close>

definition updateLocalTypebot :: "render \<Rightarrow> UpdateTypebotPayload \<Rightarrow> state \<Rightarrow> state" where
  "updateLocalTypebot r updates s =
     (case localTypebot_r r of
        None \<Rightarrow> s
      | Some localTypebot \<Rightarrow> setLocalTypebot (Some (spreadUpdates localTypebot updates)) s)"

text \<open>
  A working-copy change as the session sees it: the update, the render that follows
  it, and the effect of that render.
\<close>

definition edit :: "UpdateTypebotPayload \<Rightarrow> state \<Rightarrow> state" where
  "edit updates s =
     (let s1 = updateLocalTypebot (render s) updates s
      in unsavedChangesEffect (render s1) s1)"

text \<open>
  The render that follows a change of the working copy, with its effect. Where a
  handler changes the working copy and then awaits a flush, this render is made while
  the flush is pending. The effect writes the cell and the listener; the steps of the
  flush before its await read the cell, which holds the new working copy already,
  raise the saving flag and issue the request. The order of the two does not show in
  the state, and the effect is applied first.
\<close>

definition afterRender :: "state \<Rightarrow> state" where
  "afterRender s = unsavedChangesEffect (render s) s"

text \<open>
  \<open>publishTypebot\<close>, lines 231 to 267. The three conditionals run in the order of the
  source; \<open>saveTypebot\<close> returns to the caller after its notification, so a failed
  flush does not end the handler.
\<close>

definition publishTypebot :: "env \<Rightarrow> render \<Rightarrow> state \<Rightarrow> state" where
  "publishTypebot e r s =
     (case localTypebot_r r of
        None \<Rightarrow> s
      | Some localTypebot \<Rightarrow>
          let publishedTypebotId = generate e;
              s1 = (case publishedTypebot_r r of
                      None \<Rightarrow> s
                    | Some p \<Rightarrow>
                        if publishedTypebotId_tb localTypebot = None
                        then saveTypebot e r
                               (afterRender
                                  (updateLocalTypebot r
                                     (noUpdates\<lparr>publishedTypebotId_upd := Some (id_pub p)\<rparr>) s))
                        else s);
              newPublicId = parseDefaultPublicId e (name_tb localTypebot) (id_tb localTypebot);
              s2 = (case publishedTypebot_r r of
                      None \<Rightarrow>
                        saveTypebot e r
                          (afterRender
                             (updateLocalTypebot r
                                (noUpdates\<lparr>publicId_upd := Some newPublicId,
                                   publishedTypebotId_upd := Some publishedTypebotId\<rparr>) s1))
                    | Some p \<Rightarrow> s1);
              newLocalTypebot = (case publishedTypebot_r r of
                      None \<Rightarrow> localTypebot\<lparr>publicId_tb := Some newPublicId\<rparr>
                    | Some p \<Rightarrow> localTypebot)
          in (case publishedTypebot_r r of
                Some p \<Rightarrow>
                  savePublishedTypebot e r
                    ((parseTypebotToPublicTypebot newLocalTypebot)\<lparr>id_pub := id_pub p\<rparr>) s2
              | None \<Rightarrow>
                  (let newSnapshot =
                         (parseTypebotToPublicTypebot newLocalTypebot)\<lparr>id_pub := publishedTypebotId\<rparr>;
                       s3 = s2\<lparr>isPublishing := True\<rparr>;
                       s4 = s3\<lparr>requests := requests s3 @ [CreatePublishedTypebot newSnapshot]\<rparr>;
                       s5 = s4\<lparr>isPublishing := False\<rparr>
                   in (case createPublishedTypebot e newSnapshot of
                         Inl err \<Rightarrow>
                           s5\<lparr>toasts := toasts s5 @
                              [\<lparr>title = name_err err, description = message_err err\<rparr>]\<rparr>
                       | Inr data \<Rightarrow>
                           mutate (Some localTypebot) (Some data) (orEmpty (webhooks_r r)) s5))))"

text \<open>\<open>restorePublishedTypebot\<close>, lines 283 to 287.\<close>

definition restorePublishedTypebot :: "env \<Rightarrow> render \<Rightarrow> state \<Rightarrow> state" where
  "restorePublishedTypebot e r s =
     (case publishedTypebot_r r of
        None \<Rightarrow> s
      | Some p \<Rightarrow>
          (case localTypebot_r r of
             None \<Rightarrow> s
           | Some localTypebot \<Rightarrow>
               saveTypebot e r
                 (afterRender
                    (setLocalTypebot (Some (parsePublicTypebotToTypebot p localTypebot)) s))))"

text \<open>\<open>updateWebhook\<close>, lines 289 to 303.\<close>

definition updateWebhook :: "env \<Rightarrow> render \<Rightarrow> string \<Rightarrow> WebhookUpdates \<Rightarrow> state \<Rightarrow> state" where
  "updateWebhook e r webhookId updates s =
     (case typebot_r r of
        None \<Rightarrow> s
      | Some tb \<Rightarrow>
          let s1 = s\<lparr>requests := requests s @ [SaveWebhook webhookId updates]\<rparr>
          in (case saveWebhook e webhookId updates of
                None \<Rightarrow> s1
              | Some w \<Rightarrow>
                  mutate (Some tb) (publishedTypebot_r r)
                    (map (\<lambda>x. if id_wh x = webhookId then w else x) (orEmpty (webhooks_r r))) s1))"

subsection \<open>The flush as the context exports it, and the store behind the requests\<close>


text \<open>The snapshots a list of requests asks the store to create, and the ones it updates.\<close>

fun createdSnapshots :: "request list \<Rightarrow> PublicTypebot list" where
  "createdSnapshots [] = []"
| "createdSnapshots (CreatePublishedTypebot p # rs) = p # createdSnapshots rs"
| "createdSnapshots (_ # rs) = createdSnapshots rs"

fun updatedSnapshotIds :: "request list \<Rightarrow> string list" where
  "updatedSnapshotIds [] = []"
| "updatedSnapshotIds (UpdatePublishedTypebot i p # rs) = i # updatedSnapshotIds rs"
| "updatedSnapshotIds (_ # rs) = updatedSnapshotIds rs"

text \<open>
  Modelled from the spec: the external store is missing. The spec (section 6): a create
  request with a projection and its assigned id yields the created PublishedSnapshot,
  or a named error, and then nothing is created. The identities in storage after a
  list of requests are the ones of the create requests the store answered without
  error.
\<close>

fun snapshotIdsInStorage :: "env \<Rightarrow> request list \<Rightarrow> string list" where
  "snapshotIdsInStorage e [] = []"
| "snapshotIdsInStorage e (CreatePublishedTypebot p # rs) =
     (case createPublishedTypebot e p of
        Inl err \<Rightarrow> snapshotIdsInStorage e rs
      | Inr data \<Rightarrow> id_pub p # snapshotIdsInStorage e rs)"
| "snapshotIdsInStorage e (_ # rs) = snapshotIdsInStorage e rs"

subsection \<open>Concrete sessions\<close>

definition draftDocument :: Typebot where
  "draftDocument =
     \<lparr>id_tb = ''tb1'', ownerId_tb = ''u1'', name_tb = ''bot'',
      blocks_tb = [1, 2], variables_tb = [], edges_tb = [3],
      theme_tb = 0, settings_tb = 0,
      publicId_tb = None, customDomain_tb = None, publishedTypebotId_tb = None\<rparr>"

definition liveSnapshot :: PublicTypebot where
  "liveSnapshot =
     \<lparr>id_pub = ''snap0'', typebotId_pub = ''tb1'', name_pub = ''bot'',
      blocks_pub = [1], variables_pub = [], edges_pub = [],
      theme_pub = 7, settings_pub = 0,
      publicId_pub = Some ''bot-tb1'', customDomain_pub = None\<rparr>"

definition hooks :: "Webhook list" where
  "hooks = [\<lparr>id_wh = ''w1'', url_wh = ''a''\<rparr>, \<lparr>id_wh = ''w2'', url_wh = ''b''\<rparr>]"

definition storeError :: error where
  "storeError = \<lparr>name_err = ''Error'', message_err = ''rejected''\<rparr>"

definition acceptingStore :: env where
  "acceptingStore =
     \<lparr>updateTypebot = (\<lambda>i t. None),
      createPublishedTypebot = (\<lambda>p. Inr p),
      updatePublishedTypebot = (\<lambda>i p. None),
      saveWebhook = (\<lambda>i u. Some \<lparr>id_wh = i, url_wh = (case url_whu u of None \<Rightarrow> [] | Some x \<Rightarrow> x)\<rparr>),
      parseDefaultPublicId = (\<lambda>n i. n @ ''-'' @ i),
      generate = ''snap1''\<rparr>"

definition rejectingStore :: env where
  "rejectingStore =
     \<lparr>updateTypebot = (\<lambda>i t. Some storeError),
      createPublishedTypebot = (\<lambda>p. Inl storeError),
      updatePublishedTypebot = (\<lambda>i p. Some storeError),
      saveWebhook = (\<lambda>i u. None),
      parseDefaultPublicId = (\<lambda>n i. n @ ''-'' @ i),
      generate = ''snap1''\<rparr>"

text \<open>A store that persists drafts and refuses to create snapshots.\<close>

definition draftOnlyStore :: env where
  "draftOnlyStore = acceptingStore\<lparr>createPublishedTypebot := (\<lambda>p. Inl storeError)\<rparr>"

text \<open>The session before the bundle has arrived, and once a bundle is loaded and shown.\<close>

definition emptySession :: state where
  "emptySession =
     \<lparr>typebot = None, publishedTypebot = None, webhooks = None, owner = None,
      isReadOnly = None, past = [], present = None, future = [],
      currentTypebotRef = None, isSavingLoading = False, isPublishing = False,
      beforeunload = False, toasts = [], requests = []\<rparr>"

definition loadedSession :: "Typebot \<Rightarrow> PublicTypebot option \<Rightarrow> state" where
  "loadedSession t p =
     setLocalTypebot (Some t)
       (emptySession\<lparr>typebot := Some t, publishedTypebot := p, webhooks := Some hooks,
          owner := Some ''u1'', isReadOnly := Some False\<rparr>)"

text \<open>
  The document with a public identifier and a recorded snapshot identity, the document
  after a rename, the session in which the rename has been made and not yet flushed,
  and the session in which the bundle has arrived and the working copy is not seeded.
\<close>

definition publishedDocument :: Typebot where
  "publishedDocument =
     draftDocument\<lparr>publicId_tb := Some ''bot-tb1'', publishedTypebotId_tb := Some ''snap0''\<rparr>"

definition renamedDocument :: Typebot where
  "renamedDocument = draftDocument\<lparr>name_tb := ''X''\<rparr>"

definition editedSession :: state where
  "editedSession = edit (noUpdates\<lparr>name_upd := Some ''X''\<rparr>) (loadedSession draftDocument None)"

definition arrivedSession :: state where
  "arrivedSession = emptySession\<lparr>typebot := Some draftDocument, webhooks := Some hooks\<rparr>"



section \<open>Properties\<close>

text \<open>
  A handler runs to its end before the next one starts; the effect of lines 183 to 193
  is the step \<open>unsavedChangesEffect\<close>, run after the render that follows a change of
  the working copy, also inside the handlers that change the working copy and await a
  flush. The refetch that \<open>mutate\<close> schedules is a later load and no part of a
  handler.
\<close>

subsection \<open>What each handler does to the state\<close>


lemma saveTypebot_accepted:
  "currentTypebotRef s = Some t \<Longrightarrow> typebot_r r \<noteq> Some t \<Longrightarrow>
   updateTypebot e (id_tb t) t = None \<Longrightarrow>
   saveTypebot e r s =
     s\<lparr>typebot := Some t, publishedTypebot := None, webhooks := Some (orEmpty (webhooks_r r)),
       owner := None, isReadOnly := None, isSavingLoading := False, beforeunload := False,
       requests := requests s @ [UpdateTypebot (id_tb t) t]\<rparr>"
  by (simp add: saveTypebot_def mutate_def Let_def)

lemma saveTypebot_rejected:
  "currentTypebotRef s = Some t \<Longrightarrow> typebot_r r \<noteq> Some t \<Longrightarrow>
   updateTypebot e (id_tb t) t = Some err \<Longrightarrow>
   saveTypebot e r s =
     s\<lparr>isSavingLoading := False,
       requests := requests s @ [UpdateTypebot (id_tb t) t],
       toasts := toasts s @ [\<lparr>title = name_err err, description = message_err err\<rparr>]\<rparr>"
  by (simp add: saveTypebot_def mutate_def Let_def)

lemma saveTypebot_history:
  "past (saveTypebot e r s) = past s \<and> present (saveTypebot e r s) = present s \<and>
   future (saveTypebot e r s) = future s \<and>
   currentTypebotRef (saveTypebot e r s) = currentTypebotRef s"
  by (simp add: saveTypebot_def mutate_def Let_def split: option.splits)

lemma saveTypebot_requests:
  "requests (saveTypebot e r s) =
     requests s @ (case currentTypebotRef s of
                     None \<Rightarrow> []
                   | Some t \<Rightarrow> if typebot_r r = Some t then [] else [UpdateTypebot (id_tb t) t])"
  by (auto simp add: saveTypebot_def mutate_def Let_def split: option.splits)

lemma setLocalTypebot_simps:
  "present (setLocalTypebot v s) = v" "currentTypebotRef (setLocalTypebot v s) = v"
  "requests (setLocalTypebot v s) = requests s" "typebot (setLocalTypebot v s) = typebot s"
  by (simp_all add: setLocalTypebot_def)

lemma afterRender_frame:
  "present (afterRender s) = present s" "requests (afterRender s) = requests s"
  "typebot (afterRender s) = typebot s" "past (afterRender s) = past s"
  "future (afterRender s) = future s"
  by (simp_all add: afterRender_def unsavedChangesEffect_def render_def Let_def
      split: option.splits)

lemma afterRender_cell:
  "currentTypebotRef s = present s \<Longrightarrow> currentTypebotRef (afterRender s) = present s"
  by (simp add: afterRender_def unsavedChangesEffect_def render_def Let_def
      split: option.splits)

lemma afterRender_set:
  "present (afterRender (setLocalTypebot v s)) = v"
  "currentTypebotRef (afterRender (setLocalTypebot v s)) = v"
  "requests (afterRender (setLocalTypebot v s)) = requests s"
  "typebot (afterRender (setLocalTypebot v s)) = typebot s"
  by (simp_all add: afterRender_frame afterRender_cell setLocalTypebot_simps)

lemma spreadUpdates_attach:
  "spreadUpdates l (noUpdates\<lparr>publishedTypebotId_upd := Some i\<rparr>)
     = l\<lparr>publishedTypebotId_tb := Some i\<rparr>"
  by (simp add: spreadUpdates_def noUpdates_def)

lemma spreadUpdates_assign:
  "spreadUpdates l (noUpdates\<lparr>publicId_upd := Some a, publishedTypebotId_upd := Some i\<rparr>)
     = l\<lparr>publicId_tb := Some a, publishedTypebotId_tb := Some i\<rparr>"
  by (simp add: spreadUpdates_def noUpdates_def)

lemma createdSnapshots_append:
  "createdSnapshots (xs @ ys) = createdSnapshots xs @ createdSnapshots ys"
  by (induction xs rule: createdSnapshots.induct) simp_all

lemma updatedSnapshotIds_append:
  "updatedSnapshotIds (xs @ ys) = updatedSnapshotIds xs @ updatedSnapshotIds ys"
  by (induction xs rule: updatedSnapshotIds.induct) simp_all

lemma snapshotIdsInStorage_append:
  "snapshotIdsInStorage e (xs @ ys) = snapshotIdsInStorage e xs @ snapshotIdsInStorage e ys"
  by (induction e xs rule: snapshotIdsInStorage.induct) (simp_all split: sum.splits)

lemma savePublishedTypebot_requests:
  "requests (savePublishedTypebot e r q s) = requests s @ [UpdatePublishedTypebot (id_pub q) q]"
  by (simp add: savePublishedTypebot_def mutate_def Let_def split: option.splits)

lemma savePublishedTypebot_history:
  "present (savePublishedTypebot e r q s) = present s \<and>
   currentTypebotRef (savePublishedTypebot e r q s) = currentTypebotRef s"
  by (simp add: savePublishedTypebot_def mutate_def Let_def split: option.splits)

lemma savePublishedTypebot_accepted:
  "updatePublishedTypebot e (id_pub q) q = None \<Longrightarrow>
   publishedTypebot (savePublishedTypebot e r q s) = Some q"
  by (simp add: savePublishedTypebot_def mutate_def Let_def)

text \<open>
  The two runs of \<open>publishTypebot\<close>: the first publication (no snapshot in the closure)
  and the republication (a snapshot in the closure).
\<close>

lemma publishTypebot_new:
  assumes "localTypebot_r r = Some l" and "publishedTypebot_r r = None"
  shows "publishTypebot e r s =
    (let l' = l\<lparr>publicId_tb := Some (parseDefaultPublicId e (name_tb l) (id_tb l)),
                 publishedTypebotId_tb := Some (generate e)\<rparr>;
         newSnapshot = (parseTypebotToPublicTypebot
            (l\<lparr>publicId_tb := Some (parseDefaultPublicId e (name_tb l) (id_tb l))\<rparr>))
              \<lparr>id_pub := generate e\<rparr>;
         s2 = saveTypebot e r (afterRender (setLocalTypebot (Some l') s));
         s5 = s2\<lparr>requests := requests s2 @ [CreatePublishedTypebot newSnapshot],
                 isPublishing := False\<rparr>
     in (case createPublishedTypebot e newSnapshot of
           Inl err \<Rightarrow> s5\<lparr>toasts := toasts s5 @
                        [\<lparr>title = name_err err, description = message_err err\<rparr>]\<rparr>
         | Inr data \<Rightarrow> mutate (Some l) (Some data) (orEmpty (webhooks_r r)) s5))"
  using assms
  by (simp add: publishTypebot_def updateLocalTypebot_def spreadUpdates_assign Let_def
      split: sum.splits)

lemma publishTypebot_new_trace:
  fixes e :: env and s :: state and l :: Typebot
  defines "newPublicId \<equiv> parseDefaultPublicId e (name_tb l) (id_tb l)"
  defines "l' \<equiv> l\<lparr>publicId_tb := Some newPublicId, publishedTypebotId_tb := Some (generate e)\<rparr>"
  defines "newSnapshot \<equiv>
     (parseTypebotToPublicTypebot (l\<lparr>publicId_tb := Some newPublicId\<rparr>))\<lparr>id_pub := generate e\<rparr>"
  defines "s' \<equiv> publishTypebot e (render s) s"
  assumes "present s = Some l" and "publishedTypebot s = None"
  shows "present s' = Some l'" and "currentTypebotRef s' = Some l'"
    and "requests s' = requests s
            @ (if typebot s = Some l' then [] else [UpdateTypebot (id_tb l) l'])
            @ [CreatePublishedTypebot newSnapshot]"
    and "\<forall>d. createPublishedTypebot e newSnapshot = Inr d \<longrightarrow> publishedTypebot s' = Some d"
proof -
  have r: "localTypebot_r (render s) = Some l" "publishedTypebot_r (render s) = None"
    "typebot_r (render s) = typebot s"
    using assms by (simp_all add: render_def)
  let ?s2 = "saveTypebot e (render s) (afterRender (setLocalTypebot (Some l') s))"
  have run: "s' = (let s5 = ?s2\<lparr>requests := requests ?s2 @ [CreatePublishedTypebot newSnapshot],
                 isPublishing := False\<rparr>
     in (case createPublishedTypebot e newSnapshot of
           Inl err \<Rightarrow> s5\<lparr>toasts := toasts s5 @
                        [\<lparr>title = name_err err, description = message_err err\<rparr>]\<rparr>
         | Inr data \<Rightarrow> mutate (Some l) (Some data) (orEmpty (webhooks_r (render s))) s5))"
    unfolding s'_def publishTypebot_new [OF r(1) r(2)] l'_def newSnapshot_def newPublicId_def
    by (simp add: Let_def)
  have s2: "present ?s2 = Some l'" "currentTypebotRef ?s2 = Some l'"
    "requests ?s2 = requests s @ (if typebot s = Some l' then [] else [UpdateTypebot (id_tb l) l'])"
    by (simp_all add: saveTypebot_history saveTypebot_requests afterRender_set r l'_def)
  show "present s' = Some l'" and "currentTypebotRef s' = Some l'"
    unfolding run by (simp_all add: Let_def mutate_def s2 split: sum.splits)
  show "requests s' = requests s
            @ (if typebot s = Some l' then [] else [UpdateTypebot (id_tb l) l'])
            @ [CreatePublishedTypebot newSnapshot]"
    unfolding run by (simp add: Let_def mutate_def s2 split: sum.splits)
  show "\<forall>d. createPublishedTypebot e newSnapshot = Inr d \<longrightarrow> publishedTypebot s' = Some d"
    unfolding run by (simp add: Let_def mutate_def)
qed

lemma publishTypebot_existing:
  assumes "localTypebot_r r = Some l" and "publishedTypebot_r r = Some p"
  shows "publishTypebot e r s =
     savePublishedTypebot e r ((parseTypebotToPublicTypebot l)\<lparr>id_pub := id_pub p\<rparr>)
       (if publishedTypebotId_tb l = None
        then saveTypebot e r
               (afterRender
                  (setLocalTypebot (Some (l\<lparr>publishedTypebotId_tb := Some (id_pub p)\<rparr>)) s))
        else s)"
  using assms
  by (simp add: publishTypebot_def updateLocalTypebot_def spreadUpdates_attach Let_def)

lemma publishTypebot_existing_trace:
  fixes e :: env and s :: state and l :: Typebot and p :: PublicTypebot
  defines "attached \<equiv> l\<lparr>publishedTypebotId_tb := Some (id_pub p)\<rparr>"
  defines "newSnapshot \<equiv> (parseTypebotToPublicTypebot l)\<lparr>id_pub := id_pub p\<rparr>"
  defines "s' \<equiv> publishTypebot e (render s) s"
  assumes "present s = Some l" and "publishedTypebot s = Some p"
  shows "requests s' = requests s
            @ (if publishedTypebotId_tb l = None \<and> typebot s \<noteq> Some attached
               then [UpdateTypebot (id_tb l) attached] else [])
            @ [UpdatePublishedTypebot (id_pub p) newSnapshot]"
    and "present s' = (if publishedTypebotId_tb l = None then Some attached else Some l)"
    and "updatePublishedTypebot e (id_pub p) newSnapshot = None \<longrightarrow>
            publishedTypebot s' = Some newSnapshot"
proof -
  have r: "localTypebot_r (render s) = Some l" "publishedTypebot_r (render s) = Some p"
    "typebot_r (render s) = typebot s"
    using assms by (simp_all add: render_def)
  let ?s1 = "if publishedTypebotId_tb l = None
        then saveTypebot e (render s) (afterRender (setLocalTypebot (Some attached) s)) else s"
  have run: "s' = savePublishedTypebot e (render s) newSnapshot ?s1"
    unfolding s'_def publishTypebot_existing [OF r(1) r(2)] attached_def newSnapshot_def ..
  have i: "id_pub newSnapshot = id_pub p" by (simp add: newSnapshot_def)
  have s1: "requests ?s1 = requests s
            @ (if publishedTypebotId_tb l = None \<and> typebot s \<noteq> Some attached
               then [UpdateTypebot (id_tb l) attached] else [])"
    "present ?s1 = (if publishedTypebotId_tb l = None then Some attached else Some l)"
    using assms(4)
    by (simp_all add: saveTypebot_history saveTypebot_requests afterRender_set r attached_def)
  show "requests s' = requests s
            @ (if publishedTypebotId_tb l = None \<and> typebot s \<noteq> Some attached
               then [UpdateTypebot (id_tb l) attached] else [])
            @ [UpdatePublishedTypebot (id_pub p) newSnapshot]"
    unfolding run savePublishedTypebot_requests s1 i by simp
  show "present s' = (if publishedTypebotId_tb l = None then Some attached else Some l)"
    unfolding run by (simp only: savePublishedTypebot_history s1)
  show "updatePublishedTypebot e (id_pub p) newSnapshot = None \<longrightarrow>
            publishedTypebot s' = Some newSnapshot"
    unfolding run using savePublishedTypebot_accepted [of e newSnapshot "render s" ?s1] i
    by simp
qed

subsection \<open>The concrete sessions, evaluated\<close>

lemma loadedSession_fields:
  "present (loadedSession t p) = Some t" "currentTypebotRef (loadedSession t p) = Some t"
  "typebot (loadedSession t p) = Some t" "publishedTypebot (loadedSession t p) = p"
  "webhooks (loadedSession t p) = Some hooks" "requests (loadedSession t p) = []"
  "toasts (loadedSession t p) = []" "isSavingLoading (loadedSession t p) = False"
  "beforeunload (loadedSession t p) = False"
  by (simp_all add: loadedSession_def setLocalTypebot_def emptySession_def)

lemma editedSession_fields:
  "present editedSession = Some renamedDocument"
  "currentTypebotRef editedSession = Some renamedDocument"
  "typebot editedSession = Some draftDocument" "requests editedSession = []"
  "toasts editedSession = []" "isSavingLoading editedSession = False"
  "beforeunload editedSession = True"
  by (simp_all add: editedSession_def edit_def updateLocalTypebot_def unsavedChangesEffect_def
      loadedSession_def setLocalTypebot_def emptySession_def render_def spreadUpdates_def
      noUpdates_def renamedDocument_def draftDocument_def checkIfTypebotsAreEqual_def)

lemma renamedDocument_fields:
  "renamedDocument \<noteq> draftDocument" "draftDocument \<noteq> renamedDocument"
  "id_tb renamedDocument = ''tb1''"
  by (simp_all add: renamedDocument_def draftDocument_def)


lemma publishedDocument_fields:
  "publicId_tb publishedDocument = Some ''bot-tb1''"
  "publishedTypebotId_tb publishedDocument = Some ''snap0''"
  "id_tb publishedDocument = ''tb1''" "ownerId_tb publishedDocument = ''u1''"
  by (simp_all add: publishedDocument_def draftDocument_def)

lemma draftDocument_fields:
  "id_tb draftDocument = ''tb1''" "name_tb draftDocument = ''bot''"
  "publicId_tb draftDocument = None" "publishedTypebotId_tb draftDocument = None"
  by (simp_all add: draftDocument_def)

lemma acceptingStore_fields:
  "updateTypebot acceptingStore i t = None" "createPublishedTypebot acceptingStore q = Inr q"
  "updatePublishedTypebot acceptingStore i q = None"
  "parseDefaultPublicId acceptingStore ''bot'' ''tb1'' = ''bot-tb1''"
  "generate acceptingStore = ''snap1''"
  by (simp_all add: acceptingStore_def)

lemma draftOnlyStore_fields:
  "updateTypebot draftOnlyStore i t = None" "createPublishedTypebot draftOnlyStore q = Inl storeError"
  "parseDefaultPublicId draftOnlyStore ''bot'' ''tb1'' = ''bot-tb1''"
  "generate draftOnlyStore = ''snap1''"
  by (simp_all add: draftOnlyStore_def acceptingStore_def)

subsection \<open>Flush\<close>




text \<open>
  C4. Flush failure atomicity. When the store answers the draft write with an error,
  \<open>saveTypebot\<close> appends one notification carrying the error's name as title and its
  message as description. The saving flag ends down, as it is whenever no flush is in
  flight, and the request is on the list of issued requests; every other component of
  the state is the one before the call: the working copy, the cell, the history, the
  persisted baseline and the listener are unchanged, so the next flush issues the same
  request again.
\<close>

theorem saveTypebot_failure_leaves_state:
  assumes "currentTypebotRef s = Some t" and "typebot_r r \<noteq> Some t"
    and "updateTypebot e (id_tb t) t = Some err"
  shows "saveTypebot e r s =
           s\<lparr>isSavingLoading := False,
             requests := requests s @ [UpdateTypebot (id_tb t) t],
             toasts := toasts s @ [\<lparr>title = name_err err, description = message_err err\<rparr>]\<rparr>
         \<and> toasts (saveTypebot e r s)
             = toasts s @ [\<lparr>title = name_err err, description = message_err err\<rparr>]
         \<and> present (saveTypebot e r s) = present s
         \<and> past (saveTypebot e r s) = past s
         \<and> future (saveTypebot e r s) = future s
         \<and> currentTypebotRef (saveTypebot e r s) = currentTypebotRef s
         \<and> typebot (saveTypebot e r s) = typebot s
         \<and> beforeunload (saveTypebot e r s) = beforeunload s
         \<and> requests (saveTypebot e r (saveTypebot e r s)) =
             requests s @ [UpdateTypebot (id_tb t) t, UpdateTypebot (id_tb t) t]
         \<and> (isSavingLoading s = False \<longrightarrow>
               saveTypebot e r s =
                 s\<lparr>requests := requests s @ [UpdateTypebot (id_tb t) t],
                   toasts := toasts s @
                     [\<lparr>title = name_err err, description = message_err err\<rparr>]\<rparr>)"
proof -
  have eq: "saveTypebot e r s =
           s\<lparr>isSavingLoading := False,
             requests := requests s @ [UpdateTypebot (id_tb t) t],
             toasts := toasts s @ [\<lparr>title = name_err err, description = message_err err\<rparr>]\<rparr>"
    using assms by (rule saveTypebot_rejected)
  have again: "requests (saveTypebot e r (saveTypebot e r s)) =
             requests s @ [UpdateTypebot (id_tb t) t, UpdateTypebot (id_tb t) t]"
    using assms by (simp add: saveTypebot_requests saveTypebot_history)
  have quiet: "isSavingLoading s = False \<longrightarrow>
               saveTypebot e r s =
                 s\<lparr>requests := requests s @ [UpdateTypebot (id_tb t) t],
                   toasts := toasts s @
                     [\<lparr>title = name_err err, description = message_err err\<rparr>]\<rparr>"
    unfolding eq by (cases s) simp
  have rest: "toasts (saveTypebot e r s)
             = toasts s @ [\<lparr>title = name_err err, description = message_err err\<rparr>]
         \<and> present (saveTypebot e r s) = present s
         \<and> past (saveTypebot e r s) = past s
         \<and> future (saveTypebot e r s) = future s
         \<and> currentTypebotRef (saveTypebot e r s) = currentTypebotRef s
         \<and> typebot (saveTypebot e r s) = typebot s
         \<and> beforeunload (saveTypebot e r s) = beforeunload s"
    unfolding eq by simp
  show ?thesis using eq again quiet rest by blast
qed

theorem saveTypebot_failure_leaves_state_witness:
  "currentTypebotRef editedSession = Some renamedDocument \<and>
   typebot_r (render editedSession) \<noteq> Some renamedDocument \<and>
   updateTypebot rejectingStore (id_tb renamedDocument) renamedDocument = Some storeError \<and>
   toasts (saveTypebot rejectingStore (render editedSession) editedSession)
     = [\<lparr>title = ''Error'', description = ''rejected''\<rparr>] \<and>
   present (saveTypebot rejectingStore (render editedSession) editedSession)
     = Some renamedDocument \<and>
   typebot (saveTypebot rejectingStore (render editedSession) editedSession)
     = Some draftDocument \<and>
   isSavingLoading editedSession = False \<and>
   saveTypebot rejectingStore (render editedSession) editedSession
     = editedSession
         \<lparr>requests := [UpdateTypebot ''tb1'' renamedDocument],
           toasts := [\<lparr>title = ''Error'', description = ''rejected''\<rparr>]\<rparr>"
proof -
  have h1: "currentTypebotRef editedSession = Some renamedDocument"
    by (simp add: editedSession_fields)
  have h2: "typebot_r (render editedSession) \<noteq> Some renamedDocument"
    by (simp add: render_def editedSession_fields renamedDocument_fields)
  have h3: "updateTypebot rejectingStore (id_tb renamedDocument) renamedDocument = Some storeError"
    by (simp add: rejectingStore_def)
  note run = saveTypebot_failure_leaves_state [OF h1 h2 h3]
  from run have "toasts (saveTypebot rejectingStore (render editedSession) editedSession)
     = toasts editedSession @ [\<lparr>title = name_err storeError, description = message_err storeError\<rparr>]"
    by blast
  then have t: "toasts (saveTypebot rejectingStore (render editedSession) editedSession)
     = [\<lparr>title = ''Error'', description = ''rejected''\<rparr>]"
    by (simp add: editedSession_fields storeError_def)
  from run have "present (saveTypebot rejectingStore (render editedSession) editedSession)
     = present editedSession" by blast
  then have p: "present (saveTypebot rejectingStore (render editedSession) editedSession)
     = Some renamedDocument" by (simp only: editedSession_fields)
  from run have "typebot (saveTypebot rejectingStore (render editedSession) editedSession)
     = typebot editedSession" by blast
  then have b: "typebot (saveTypebot rejectingStore (render editedSession) editedSession)
     = Some draftDocument" by (simp only: editedSession_fields)
  have q: "isSavingLoading editedSession = False" by (simp add: editedSession_fields)
  from run q have "saveTypebot rejectingStore (render editedSession) editedSession
     = editedSession
         \<lparr>requests := requests editedSession @ [UpdateTypebot (id_tb renamedDocument) renamedDocument],
           toasts := toasts editedSession @
             [\<lparr>title = name_err storeError, description = message_err storeError\<rparr>]\<rparr>"
    by blast
  then have w: "saveTypebot rejectingStore (render editedSession) editedSession
     = editedSession
         \<lparr>requests := [UpdateTypebot ''tb1'' renamedDocument],
           toasts := [\<lparr>title = ''Error'', description = ''rejected''\<rparr>]\<rparr>"
    by (simp add: editedSession_fields renamedDocument_fields storeError_def)
  from h1 h2 h3 t p b q w show ?thesis by blast
qed

text \<open>
  C10. Implicit flush safety. When \<open>currentTypebotRef\<close> holds no value, \<open>saveTypebot\<close>
  returns the state as it is, whatever closure runs it: no request is issued and the
  saving flag is not touched. Either the baseline is undefined too and the first guard
  returns, or the second guard does; the persist call is never reached without a
  payload.
\<close>

theorem saveTypebot_without_payload:
  "currentTypebotRef s = None \<Longrightarrow> saveTypebot e r s = s"
  by (simp add: saveTypebot_def)

text \<open>The bundle has arrived, the cell is still empty: the second guard returns.\<close>

theorem saveTypebot_without_payload_witness:
  "currentTypebotRef arrivedSession = None \<and>
   typebot_r (render arrivedSession) \<noteq> currentTypebotRef arrivedSession \<and>
   saveTypebot acceptingStore (render arrivedSession) arrivedSession = arrivedSession"
proof -
  have h: "currentTypebotRef arrivedSession = None"
    by (simp add: arrivedSession_def emptySession_def)
  have g: "typebot_r (render arrivedSession) \<noteq> currentTypebotRef arrivedSession"
    by (simp add: render_def arrivedSession_def emptySession_def)
  have "saveTypebot acceptingStore (render arrivedSession) arrivedSession = arrivedSession"
    using h by (rule saveTypebot_without_payload)
  with h g show ?thesis by blast
qed

subsection \<open>The unsaved-changes guard\<close>

text \<open>
  C7. Divergence detection. The effect that follows a change of the working copy
  compares the working copy with the last loaded or persisted Document (by
  \<open>checkIfTypebotsAreEqual\<close>, deep equality) when both exist: the page-unload listener
  is installed afterwards exactly when they differ. So after an update the listener is
  installed exactly when the updated working copy differs from the baseline. A flush
  the store accepts leaves the listener removed and the baseline equal to what was
  flushed.
\<close>

theorem unsaved_changes_guard:
  "(localTypebot_r r = Some l \<and> typebot_r r = Some t \<longrightarrow>
      beforeunload (unsavedChangesEffect r s) = (l \<noteq> t)) \<and>
   (present s = Some l \<and> typebot s = Some t \<longrightarrow>
      beforeunload (edit u s) = (spreadUpdates l u \<noteq> t)) \<and>
   (currentTypebotRef s = Some l \<and> typebot_r r \<noteq> Some l \<and> updateTypebot e (id_tb l) l = None \<longrightarrow>
      beforeunload (saveTypebot e r s) = False \<and> typebot (saveTypebot e r s) = Some l)"
proof (intro conjI impI)
  assume "localTypebot_r r = Some l \<and> typebot_r r = Some t"
  then show "beforeunload (unsavedChangesEffect r s) = (l \<noteq> t)"
    by (simp add: unsavedChangesEffect_def checkIfTypebotsAreEqual_def Let_def)
next
  assume "present s = Some l \<and> typebot s = Some t"
  then show "beforeunload (edit u s) = (spreadUpdates l u \<noteq> t)"
    by (simp add: edit_def updateLocalTypebot_def setLocalTypebot_def render_def
        unsavedChangesEffect_def checkIfTypebotsAreEqual_def Let_def)
next
  assume a: "currentTypebotRef s = Some l \<and> typebot_r r \<noteq> Some l \<and> updateTypebot e (id_tb l) l = None"
  then show "beforeunload (saveTypebot e r s) = False"
    by (simp add: saveTypebot_accepted)
  from a show "typebot (saveTypebot e r s) = Some l"
    by (simp add: saveTypebot_accepted)
qed

text \<open>
  The rename of the spec's example: the loaded session is clean, the rename to a
  different name arms the guard, the accepted flush disarms it.
\<close>

theorem unsaved_changes_guard_witness:
  "present (loadedSession draftDocument None) = Some draftDocument \<and>
   typebot (loadedSession draftDocument None) = Some draftDocument \<and>
   beforeunload (loadedSession draftDocument None) = False \<and>
   beforeunload (edit (noUpdates\<lparr>name_upd := Some ''X''\<rparr>) (loadedSession draftDocument None)) = True \<and>
   localTypebot_r (render editedSession) = Some renamedDocument \<and>
   typebot_r (render editedSession) = Some draftDocument \<and>
   beforeunload (unsavedChangesEffect (render editedSession) editedSession) = True \<and>
   currentTypebotRef editedSession = Some renamedDocument \<and>
   typebot_r (render editedSession) \<noteq> Some renamedDocument \<and>
   updateTypebot acceptingStore (id_tb renamedDocument) renamedDocument = None \<and>
   beforeunload (saveTypebot acceptingStore (render editedSession) editedSession) = False"
proof -
  let ?s0 = "loadedSession draftDocument None"
  let ?u = "noUpdates\<lparr>name_upd := Some ''X''\<rparr>"
  have a1: "present ?s0 = Some draftDocument" and a2: "typebot ?s0 = Some draftDocument"
    and a3: "beforeunload ?s0 = False"
    by (simp_all add: loadedSession_fields)
  have b1: "localTypebot_r (render editedSession) = Some renamedDocument"
    and b2: "typebot_r (render editedSession) = Some draftDocument"
    by (simp_all add: render_def editedSession_fields)
  have c1: "currentTypebotRef editedSession = Some renamedDocument"
    by (simp add: editedSession_fields)
  have c2: "typebot_r (render editedSession) \<noteq> Some renamedDocument"
    by (simp add: render_def editedSession_fields renamedDocument_fields)
  have c3: "updateTypebot acceptingStore (id_tb renamedDocument) renamedDocument = None"
    by (simp add: acceptingStore_def)
  have d: "spreadUpdates draftDocument ?u \<noteq> draftDocument"
    by (simp add: spreadUpdates_def noUpdates_def draftDocument_def)
  from unsaved_changes_guard [of "render ?s0" draftDocument draftDocument ?s0 ?u acceptingStore]
    a1 a2
  have "beforeunload (edit ?u ?s0) = (spreadUpdates draftDocument ?u \<noteq> draftDocument)"
    by blast
  with d have e1: "beforeunload (edit ?u ?s0) = True" by blast
  note g = unsaved_changes_guard
             [of "render editedSession" renamedDocument draftDocument editedSession ?u acceptingStore]
  from g b1 b2 have "beforeunload (unsavedChangesEffect (render editedSession) editedSession)
      = (renamedDocument \<noteq> draftDocument)" by blast
  then have e2: "beforeunload (unsavedChangesEffect (render editedSession) editedSession) = True"
    using renamedDocument_fields(1) by blast
  from g c1 c2 c3
  have e3: "beforeunload (saveTypebot acceptingStore (render editedSession) editedSession) = False"
    by blast
  from a1 a2 a3 e1 b1 b2 e2 c1 c2 c3 e3 show ?thesis by blast
qed

subsection \<open>Local updates and webhooks\<close>

text \<open>
  C9. No-document no-op. \<open>updateLocalTypebot\<close> (the context's \<open>updateTypebot\<close>) called
  from a render that has no working copy returns without raising and leaves every
  component of the state as it was: the history, the cell, the flags and the list of
  requests.
\<close>

theorem updateLocalTypebot_without_document:
  "localTypebot_r r = None \<Longrightarrow> updateLocalTypebot r updates s = s"
  by (simp add: updateLocalTypebot_def)

theorem updateLocalTypebot_without_document_witness:
  "localTypebot_r (render arrivedSession) = None \<and>
   updateLocalTypebot (render arrivedSession) (noUpdates\<lparr>name_upd := Some ''X''\<rparr>) arrivedSession
     = arrivedSession"
proof -
  have h: "localTypebot_r (render arrivedSession) = None"
    by (simp add: render_def arrivedSession_def emptySession_def)
  have "updateLocalTypebot (render arrivedSession) (noUpdates\<lparr>name_upd := Some ''X''\<rparr>)
          arrivedSession = arrivedSession"
    using h by (rule updateLocalTypebot_without_document)
  with h show ?thesis by blast
qed

text \<open>
  C8. Webhook update frame property. \<open>updateWebhook\<close>, run from the render that shows
  the state, leaves the Document (\<open>typebot\<close>), the history with the working copy and
  the cell, and the PublishedSnapshot as they were. The webhook list keeps its length,
  and every entry whose id is not the given one is the entry it was. When the store's
  response carries no data, the state is the one before the call but for the request
  on the list of issued requests; without a loaded Document the handler returns at
  once.
\<close>

theorem updateWebhook_frame:
  "typebot (updateWebhook e (render s) webhookId updates s) = typebot s \<and>
   publishedTypebot (updateWebhook e (render s) webhookId updates s) = publishedTypebot s \<and>
   past (updateWebhook e (render s) webhookId updates s) = past s \<and>
   present (updateWebhook e (render s) webhookId updates s) = present s \<and>
   future (updateWebhook e (render s) webhookId updates s) = future s \<and>
   currentTypebotRef (updateWebhook e (render s) webhookId updates s) = currentTypebotRef s \<and>
   length (orEmpty (webhooks (updateWebhook e (render s) webhookId updates s)))
     = length (orEmpty (webhooks s)) \<and>
   (\<forall>i < length (orEmpty (webhooks s)).
      id_wh (orEmpty (webhooks s) ! i) \<noteq> webhookId \<longrightarrow>
      orEmpty (webhooks (updateWebhook e (render s) webhookId updates s)) ! i
        = orEmpty (webhooks s) ! i) \<and>
   (saveWebhook e webhookId updates = None \<and> typebot s \<noteq> None \<longrightarrow>
      updateWebhook e (render s) webhookId updates s
        = s\<lparr>requests := requests s @ [SaveWebhook webhookId updates]\<rparr>) \<and>
   (typebot s = None \<longrightarrow> updateWebhook e (render s) webhookId updates s = s)"
  by (simp add: updateWebhook_def render_def mutate_def orEmpty_def Let_def
      split: option.splits)

text \<open>
  Two webhooks, the first one updated: the second entry is the one it was; with a
  store that returns no data nothing but the request is recorded.
\<close>

theorem updateWebhook_frame_witness:
  "(1::nat) < length (orEmpty (webhooks (loadedSession draftDocument None))) \<and>
   id_wh (orEmpty (webhooks (loadedSession draftDocument None)) ! 1) \<noteq> ''w1'' \<and>
   orEmpty (webhooks (updateWebhook acceptingStore (render (loadedSession draftDocument None))
      ''w1'' \<lparr>id_whu = None, url_whu = Some ''c''\<rparr> (loadedSession draftDocument None))) ! 1
     = \<lparr>id_wh = ''w2'', url_wh = ''b''\<rparr> \<and>
   typebot (updateWebhook acceptingStore (render (loadedSession draftDocument None))
      ''w1'' \<lparr>id_whu = None, url_whu = Some ''c''\<rparr> (loadedSession draftDocument None))
     = Some draftDocument \<and>
   saveWebhook rejectingStore ''w1'' \<lparr>id_whu = None, url_whu = Some ''c''\<rparr> = None \<and>
   typebot (loadedSession draftDocument None) \<noteq> None \<and>
   updateWebhook rejectingStore (render (loadedSession draftDocument None))
      ''w1'' \<lparr>id_whu = None, url_whu = Some ''c''\<rparr> (loadedSession draftDocument None)
     = (loadedSession draftDocument None)
         \<lparr>requests := [SaveWebhook ''w1'' \<lparr>id_whu = None, url_whu = Some ''c''\<rparr>]\<rparr> \<and>
   typebot emptySession = None \<and>
   updateWebhook acceptingStore (render emptySession)
      ''w1'' \<lparr>id_whu = None, url_whu = Some ''c''\<rparr> emptySession = emptySession"
proof -
  let ?s = "loadedSession draftDocument None"
  let ?u = "\<lparr>id_whu = None, url_whu = Some ''c''\<rparr>"
  have ws: "orEmpty (webhooks ?s) = hooks"
    by (simp add: loadedSession_fields orEmpty_def)
  have h1: "(1::nat) < length (orEmpty (webhooks ?s))"
    by (simp add: ws hooks_def)
  have h2: "id_wh (orEmpty (webhooks ?s) ! 1) \<noteq> ''w1''"
    by (simp add: ws hooks_def)
  have v: "orEmpty (webhooks ?s) ! 1 = \<lparr>id_wh = ''w2'', url_wh = ''b''\<rparr>"
    by (simp add: ws hooks_def)
  note ok = updateWebhook_frame [of acceptingStore ?s "''w1''" ?u]
  from ok h1 h2
  have "orEmpty (webhooks (updateWebhook acceptingStore (render ?s) ''w1'' ?u ?s)) ! 1
          = orEmpty (webhooks ?s) ! 1"
    by blast
  then have c1: "orEmpty (webhooks (updateWebhook acceptingStore (render ?s) ''w1'' ?u ?s)) ! 1
          = \<lparr>id_wh = ''w2'', url_wh = ''b''\<rparr>"
    by (simp only: v)
  from ok have "typebot (updateWebhook acceptingStore (render ?s) ''w1'' ?u ?s) = typebot ?s"
    by blast
  then have c2: "typebot (updateWebhook acceptingStore (render ?s) ''w1'' ?u ?s)
      = Some draftDocument"
    by (simp only: loadedSession_fields)
  have h3: "saveWebhook rejectingStore ''w1'' ?u = None"
    by (simp add: rejectingStore_def)
  have h4: "typebot ?s \<noteq> None"
    by (simp add: loadedSession_fields)
  from updateWebhook_frame [of rejectingStore ?s "''w1''" ?u] h3 h4
  have "updateWebhook rejectingStore (render ?s) ''w1'' ?u ?s
      = ?s\<lparr>requests := requests ?s @ [SaveWebhook ''w1'' ?u]\<rparr>"
    by blast
  then have c3: "updateWebhook rejectingStore (render ?s) ''w1'' ?u ?s
      = ?s\<lparr>requests := [SaveWebhook ''w1'' ?u]\<rparr>"
    by (simp only: loadedSession_fields append_Nil)
  have h5: "typebot emptySession = None" by (simp add: emptySession_def)
  from updateWebhook_frame [of acceptingStore emptySession "''w1''" ?u] h5
  have c4: "updateWebhook acceptingStore (render emptySession) ''w1'' ?u emptySession
      = emptySession"
    by blast
  from h1 h2 c1 c2 h3 h4 c3 h5 c4 show ?thesis by blast
qed

subsection \<open>Restore\<close>

text \<open>
  C5. Restore. With a PublishedSnapshot and a working copy, \<open>restorePublishedTypebot\<close>
  makes the working copy (and the cell) the projection of the snapshot onto the
  current working copy: its publication-relevant fields are the snapshot's, its
  identity and its owner are the ones before the restore. It then flushes: unless the
  persisted baseline already is the restored Document, the one request it issues
  writes the restored Document to the draft store.
\<close>

theorem restorePublishedTypebot_restores:
  assumes "publishedTypebot s = Some p" and "present s = Some l"
  shows "present (restorePublishedTypebot e (render s) s) = Some (parsePublicTypebotToTypebot p l)
       \<and> currentTypebotRef (restorePublishedTypebot e (render s) s)
           = Some (parsePublicTypebotToTypebot p l)
       \<and> publicationFields (parsePublicTypebotToTypebot p l) = snapshotFields p
       \<and> id_tb (parsePublicTypebotToTypebot p l) = id_tb l
       \<and> ownerId_tb (parsePublicTypebotToTypebot p l) = ownerId_tb l
       \<and> requests (restorePublishedTypebot e (render s) s) =
           requests s @ (if typebot s = Some (parsePublicTypebotToTypebot p l) then []
                         else [UpdateTypebot (id_tb l) (parsePublicTypebotToTypebot p l)])"
proof -
  let ?t = "parsePublicTypebotToTypebot p l"
  have run: "restorePublishedTypebot e (render s) s
               = saveTypebot e (render s) (afterRender (setLocalTypebot (Some ?t) s))"
    using assms by (simp add: restorePublishedTypebot_def render_def)
  have idt: "id_tb ?t = id_tb l" and own: "ownerId_tb ?t = ownerId_tb l"
    by (simp_all add: parsePublicTypebotToTypebot_def)
  have fields: "publicationFields ?t = snapshotFields p"
    by (simp add: parsePublicTypebotToTypebot_def publicationFields_def snapshotFields_def)
  have reqs: "requests (restorePublishedTypebot e (render s) s) =
           requests s @ (if typebot s = Some ?t then [] else [UpdateTypebot (id_tb l) ?t])"
    unfolding run by (simp add: saveTypebot_requests afterRender_set render_def idt)
  have hist: "present (restorePublishedTypebot e (render s) s) = Some ?t"
    "currentTypebotRef (restorePublishedTypebot e (render s) s) = Some ?t"
    unfolding run by (simp_all add: saveTypebot_history afterRender_set)
  show ?thesis
    using idt own fields reqs hist by simp
qed

text \<open>
  The published document, edited since (two blocks, theme 0) against the live
  snapshot (one block, theme 7): the restore takes the snapshot's content, keeps id
  and owner, and writes the restored Document once.
\<close>

theorem restorePublishedTypebot_restores_witness:
  "publishedTypebot (loadedSession publishedDocument (Some liveSnapshot)) = Some liveSnapshot \<and>
   present (loadedSession publishedDocument (Some liveSnapshot)) = Some publishedDocument \<and>
   publicationFields publishedDocument \<noteq> snapshotFields liveSnapshot \<and>
   present (restorePublishedTypebot acceptingStore
      (render (loadedSession publishedDocument (Some liveSnapshot)))
      (loadedSession publishedDocument (Some liveSnapshot)))
     = Some (parsePublicTypebotToTypebot liveSnapshot publishedDocument) \<and>
   publicationFields (parsePublicTypebotToTypebot liveSnapshot publishedDocument)
     = ([1], [], [], 7, 0, Some ''bot-tb1'') \<and>
   id_tb (parsePublicTypebotToTypebot liveSnapshot publishedDocument) = ''tb1'' \<and>
   ownerId_tb (parsePublicTypebotToTypebot liveSnapshot publishedDocument) = ''u1'' \<and>
   requests (restorePublishedTypebot acceptingStore
      (render (loadedSession publishedDocument (Some liveSnapshot)))
      (loadedSession publishedDocument (Some liveSnapshot)))
     = [UpdateTypebot ''tb1'' (parsePublicTypebotToTypebot liveSnapshot publishedDocument)]"
proof -
  let ?s = "loadedSession publishedDocument (Some liveSnapshot)"
  let ?t = "parsePublicTypebotToTypebot liveSnapshot publishedDocument"
  have h1: "publishedTypebot ?s = Some liveSnapshot" and h2: "present ?s = Some publishedDocument"
    by (simp_all add: loadedSession_fields)
  have d: "publicationFields publishedDocument \<noteq> snapshotFields liveSnapshot"
    by (simp add: publicationFields_def snapshotFields_def publishedDocument_def
        draftDocument_def liveSnapshot_def)
  have sf: "snapshotFields liveSnapshot = ([1], [], [], 7, 0, Some ''bot-tb1'')"
    by (simp add: snapshotFields_def liveSnapshot_def)
  have ne: "typebot ?s \<noteq> Some ?t"
    by (simp add: loadedSession_fields parsePublicTypebotToTypebot_def publishedDocument_def
        draftDocument_def liveSnapshot_def)
  note run = restorePublishedTypebot_restores [OF h1 h2, of acceptingStore]
  from run have c1: "present (restorePublishedTypebot acceptingStore (render ?s) ?s) = Some ?t"
    by blast
  from run have "publicationFields ?t = snapshotFields liveSnapshot" by blast
  then have c2: "publicationFields ?t = ([1], [], [], 7, 0, Some ''bot-tb1'')"
    by (simp only: sf)
  from run have "id_tb ?t = id_tb publishedDocument" and "ownerId_tb ?t = ownerId_tb publishedDocument"
    by blast+
  then have c3: "id_tb ?t = ''tb1''" and c4: "ownerId_tb ?t = ''u1''"
    by (simp_all only: publishedDocument_fields)
  from run have "requests (restorePublishedTypebot acceptingStore (render ?s) ?s) =
           requests ?s @ (if typebot ?s = Some ?t then []
                         else [UpdateTypebot (id_tb publishedDocument) ?t])"
    by blast
  then have c5: "requests (restorePublishedTypebot acceptingStore (render ?s) ?s)
      = [UpdateTypebot ''tb1'' ?t]"
    using ne by (simp add: loadedSession_fields publishedDocument_fields)
  from h1 h2 d c1 c2 c3 c4 c5 show ?thesis by blast
qed

subsection \<open>Publication\<close>

text \<open>
  C2. Publish-new. From a session with a working copy and no PublishedSnapshot,
  \<open>publishTypebot\<close> leaves a working copy (and cell) whose \<open>publicId\<close> is defined, the
  identifier derived from its name and id, and whose \<open>publishedTypebotId\<close> is defined,
  the freshly generated identity. It flushes the draft with both fields set (unless the
  baseline already is that Document) and then asks the store to create one snapshot:
  the snapshot carries the generated identity, its publication-relevant fields are
  those of the resulting Document, so its content graph, theme and settings are the
  Document's at call time and its public identifier is the assigned one. When the
  store accepts, the snapshot it returns is the session's PublishedSnapshot.
\<close>

theorem publishTypebot_first_publication:
  fixes e :: env and s :: state and l :: Typebot
  defines "newPublicId \<equiv> parseDefaultPublicId e (name_tb l) (id_tb l)"
  defines "l' \<equiv> l\<lparr>publicId_tb := Some newPublicId, publishedTypebotId_tb := Some (generate e)\<rparr>"
  defines "newSnapshot \<equiv>
     (parseTypebotToPublicTypebot (l\<lparr>publicId_tb := Some newPublicId\<rparr>))\<lparr>id_pub := generate e\<rparr>"
  defines "s' \<equiv> publishTypebot e (render s) s"
  assumes "present s = Some l" and "publishedTypebot s = None"
  shows "present s' = Some l' \<and> currentTypebotRef s' = Some l'
       \<and> publicId_tb l' = Some newPublicId \<and> publishedTypebotId_tb l' = Some (generate e)
       \<and> requests s' = requests s
            @ (if typebot s = Some l' then [] else [UpdateTypebot (id_tb l) l'])
            @ [CreatePublishedTypebot newSnapshot]
       \<and> id_pub newSnapshot = generate e
       \<and> snapshotFields newSnapshot = publicationFields l'
       \<and> blocks_pub newSnapshot = blocks_tb l \<and> variables_pub newSnapshot = variables_tb l
       \<and> edges_pub newSnapshot = edges_tb l \<and> theme_pub newSnapshot = theme_tb l
       \<and> settings_pub newSnapshot = settings_tb l
       \<and> (\<forall>d. createPublishedTypebot e newSnapshot = Inr d \<longrightarrow> publishedTypebot s' = Some d)"
proof -
  note t = publishTypebot_new_trace [OF assms(5) assms(6), of e]
  have f: "publicId_tb l' = Some newPublicId" "publishedTypebotId_tb l' = Some (generate e)"
    "id_pub newSnapshot = generate e" "snapshotFields newSnapshot = publicationFields l'"
    "blocks_pub newSnapshot = blocks_tb l" "variables_pub newSnapshot = variables_tb l"
    "edges_pub newSnapshot = edges_tb l" "theme_pub newSnapshot = theme_tb l"
    "settings_pub newSnapshot = settings_tb l"
    by (simp_all add: l'_def newSnapshot_def parseTypebotToPublicTypebot_def
        snapshotFields_def publicationFields_def)
  show ?thesis
    using t f unfolding s'_def l'_def newSnapshot_def newPublicId_def by blast
qed

text \<open>
  The draft document, never published, with a store that accepts: the working copy
  gets the slug and the generated identity, the draft is written, one snapshot with
  that identity is created and becomes the session's snapshot.
\<close>

theorem publishTypebot_first_publication_witness:
  "present (loadedSession draftDocument None) = Some draftDocument \<and>
   publishedTypebot (loadedSession draftDocument None) = None \<and>
   publicId_tb draftDocument = None \<and>
   present (publishTypebot acceptingStore (render (loadedSession draftDocument None))
              (loadedSession draftDocument None))
     = Some (draftDocument\<lparr>publicId_tb := Some ''bot-tb1'',
               publishedTypebotId_tb := Some ''snap1''\<rparr>) \<and>
   requests (publishTypebot acceptingStore (render (loadedSession draftDocument None))
              (loadedSession draftDocument None))
     = [UpdateTypebot ''tb1''
          (draftDocument\<lparr>publicId_tb := Some ''bot-tb1'', publishedTypebotId_tb := Some ''snap1''\<rparr>),
        CreatePublishedTypebot
          ((parseTypebotToPublicTypebot (draftDocument\<lparr>publicId_tb := Some ''bot-tb1''\<rparr>))
             \<lparr>id_pub := ''snap1''\<rparr>)] \<and>
   publishedTypebot (publishTypebot acceptingStore (render (loadedSession draftDocument None))
              (loadedSession draftDocument None))
     = Some ((parseTypebotToPublicTypebot (draftDocument\<lparr>publicId_tb := Some ''bot-tb1''\<rparr>))
             \<lparr>id_pub := ''snap1''\<rparr>)"
proof -
  let ?s = "loadedSession draftDocument None"
  let ?l' = "draftDocument\<lparr>publicId_tb := Some ''bot-tb1'', publishedTypebotId_tb := Some ''snap1''\<rparr>"
  let ?q = "(parseTypebotToPublicTypebot (draftDocument\<lparr>publicId_tb := Some ''bot-tb1''\<rparr>))
             \<lparr>id_pub := ''snap1''\<rparr>"
  have h1: "present ?s = Some draftDocument" and h2: "publishedTypebot ?s = None"
    by (simp_all add: loadedSession_fields)
  have h3: "publicId_tb draftDocument = None" by (simp add: draftDocument_fields)
  have ne: "typebot ?s \<noteq> Some ?l'"
    by (simp add: loadedSession_fields draftDocument_def)
  note run = publishTypebot_first_publication [OF h1 h2, of acceptingStore,
      unfolded draftDocument_fields acceptingStore_fields]
  from run have c1: "present (publishTypebot acceptingStore (render ?s) ?s) = Some ?l'"
    by (rule conjunct1)
  from run have "requests (publishTypebot acceptingStore (render ?s) ?s) = requests ?s
            @ (if typebot ?s = Some ?l' then [] else [UpdateTypebot ''tb1'' ?l'])
            @ [CreatePublishedTypebot ?q]"
    by (elim conjE)
  then have c2: "requests (publishTypebot acceptingStore (render ?s) ?s)
      = [UpdateTypebot ''tb1'' ?l', CreatePublishedTypebot ?q]"
    using ne by (simp add: loadedSession_fields)
  from run have c3: "publishedTypebot (publishTypebot acceptingStore (render ?s) ?s) = Some ?q"
    by (elim conjE) simp
  from h1 h2 h3 c1 c2 c3 show ?thesis by blast
qed

text \<open>
  C3. Publish-update. From a session with a working copy and a PublishedSnapshot,
  \<open>publishTypebot\<close> asks the store to create no snapshot and to update exactly one,
  under the identity of the existing snapshot, with the projection of the working
  copy; when the store accepts, the session's snapshot is that projection under the
  same identity. The only change to the working copy is the recording of the
  snapshot's identity when the Document had none (flushed to the draft store), so its
  \<open>publicId\<close> is the one it had.
\<close>

theorem publishTypebot_existing_snapshot:
  fixes e :: env and s :: state and l :: Typebot and p :: PublicTypebot
  defines "attached \<equiv> l\<lparr>publishedTypebotId_tb := Some (id_pub p)\<rparr>"
  defines "newSnapshot \<equiv> (parseTypebotToPublicTypebot l)\<lparr>id_pub := id_pub p\<rparr>"
  defines "s' \<equiv> publishTypebot e (render s) s"
  assumes "present s = Some l" and "publishedTypebot s = Some p"
  shows "requests s' = requests s
            @ (if publishedTypebotId_tb l = None \<and> typebot s \<noteq> Some attached
               then [UpdateTypebot (id_tb l) attached] else [])
            @ [UpdatePublishedTypebot (id_pub p) newSnapshot]
       \<and> createdSnapshots (requests s') = createdSnapshots (requests s)
       \<and> updatedSnapshotIds (requests s') = updatedSnapshotIds (requests s) @ [id_pub p]
       \<and> present s' = (if publishedTypebotId_tb l = None then Some attached else Some l)
       \<and> map_option publicId_tb (present s') = Some (publicId_tb l)
       \<and> publicId_tb attached = publicId_tb l
       \<and> id_pub newSnapshot = id_pub p
       \<and> (updatePublishedTypebot e (id_pub p) newSnapshot = None \<longrightarrow>
            publishedTypebot s' = Some newSnapshot)"
proof -
  note t = publishTypebot_existing_trace [OF assms(4) assms(5), of e,
      folded attached_def newSnapshot_def s'_def]
  have c: "createdSnapshots (requests s') = createdSnapshots (requests s)"
    "updatedSnapshotIds (requests s') = updatedSnapshotIds (requests s) @ [id_pub p]"
    unfolding t(1) by (simp_all add: createdSnapshots_append updatedSnapshotIds_append)
  have a: "publicId_tb attached = publicId_tb l" "id_pub newSnapshot = id_pub p"
    by (simp_all add: attached_def newSnapshot_def)
  have m: "map_option publicId_tb (present s') = Some (publicId_tb l)"
    unfolding t(2) using a by simp
  show ?thesis using t c a m by blast
qed

text \<open>
  The published document and its live snapshot: one update under the identity
  \<open>snap0\<close>, no creation, the public identifier kept.
\<close>

theorem publishTypebot_existing_snapshot_witness:
  "present (loadedSession publishedDocument (Some liveSnapshot)) = Some publishedDocument \<and>
   publishedTypebot (loadedSession publishedDocument (Some liveSnapshot)) = Some liveSnapshot \<and>
   updatePublishedTypebot acceptingStore (id_pub liveSnapshot)
     ((parseTypebotToPublicTypebot publishedDocument)\<lparr>id_pub := id_pub liveSnapshot\<rparr>) = None \<and>
   createdSnapshots (requests (publishTypebot acceptingStore
      (render (loadedSession publishedDocument (Some liveSnapshot)))
      (loadedSession publishedDocument (Some liveSnapshot)))) = [] \<and>
   updatedSnapshotIds (requests (publishTypebot acceptingStore
      (render (loadedSession publishedDocument (Some liveSnapshot)))
      (loadedSession publishedDocument (Some liveSnapshot)))) = [''snap0''] \<and>
   map_option publicId_tb (present (publishTypebot acceptingStore
      (render (loadedSession publishedDocument (Some liveSnapshot)))
      (loadedSession publishedDocument (Some liveSnapshot)))) = Some (Some ''bot-tb1'') \<and>
   publishedTypebot (publishTypebot acceptingStore
      (render (loadedSession publishedDocument (Some liveSnapshot)))
      (loadedSession publishedDocument (Some liveSnapshot)))
     = Some ((parseTypebotToPublicTypebot publishedDocument)\<lparr>id_pub := ''snap0''\<rparr>)"
proof -
  let ?s = "loadedSession publishedDocument (Some liveSnapshot)"
  let ?s' = "publishTypebot acceptingStore (render ?s) ?s"
  have h1: "present ?s = Some publishedDocument"
    and h2: "publishedTypebot ?s = Some liveSnapshot"
    by (simp_all add: loadedSession_fields)
  have h3: "updatePublishedTypebot acceptingStore (id_pub liveSnapshot)
     ((parseTypebotToPublicTypebot publishedDocument)\<lparr>id_pub := id_pub liveSnapshot\<rparr>) = None"
    by (simp add: acceptingStore_fields)
  have i: "id_pub liveSnapshot = ''snap0''" by (simp add: liveSnapshot_def)
  note run = publishTypebot_existing_snapshot [OF h1 h2, of acceptingStore]
  from run have "createdSnapshots (requests ?s') = createdSnapshots (requests ?s)" by blast
  then have c1: "createdSnapshots (requests ?s') = []"
    by (simp add: loadedSession_fields)
  from run have "updatedSnapshotIds (requests ?s') = updatedSnapshotIds (requests ?s) @ [id_pub liveSnapshot]"
    by blast
  then have c2: "updatedSnapshotIds (requests ?s') = [''snap0'']"
    by (simp add: loadedSession_fields i)
  from run have "map_option publicId_tb (present ?s') = Some (publicId_tb publishedDocument)"
    by blast
  then have c3: "map_option publicId_tb (present ?s') = Some (Some ''bot-tb1'')"
    by (simp only: publishedDocument_fields)
  from run h3 have "publishedTypebot ?s'
     = Some ((parseTypebotToPublicTypebot publishedDocument)\<lparr>id_pub := id_pub liveSnapshot\<rparr>)"
    by blast
  then have c4: "publishedTypebot ?s'
     = Some ((parseTypebotToPublicTypebot publishedDocument)\<lparr>id_pub := ''snap0''\<rparr>)"
    by (simp only: i)
  from h1 h2 h3 c1 c2 c3 c4 show ?thesis by blast
qed

text \<open>
  C6. Snapshot identity. As stated (the Document never references a snapshot identity
  that is not in storage) the claim fails: the first publication flushes the draft
  with the generated identity before it asks the store to create the snapshot, and a
  refused creation is notified and not rolled back. With a store that persists drafts
  and refuses creations, the working copy and the persisted baseline reference
  \<open>snap1\<close> while no snapshot is in storage.
\<close>

theorem snapshot_identity_counterexample:
  "map_option publishedTypebotId_tb
     (present (publishTypebot draftOnlyStore (render (loadedSession draftDocument None))
                (loadedSession draftDocument None))) = Some (Some ''snap1'') \<and>
   map_option publishedTypebotId_tb
     (typebot (publishTypebot draftOnlyStore (render (loadedSession draftDocument None))
                (loadedSession draftDocument None))) = Some (Some ''snap1'') \<and>
   publishedTypebot (publishTypebot draftOnlyStore (render (loadedSession draftDocument None))
                (loadedSession draftDocument None)) = None \<and>
   ''snap1'' \<notin> set (snapshotIdsInStorage draftOnlyStore
     (requests (publishTypebot draftOnlyStore (render (loadedSession draftDocument None))
                (loadedSession draftDocument None))))"
  by (simp add: publishTypebot_def saveTypebot_def updateLocalTypebot_def setLocalTypebot_def
      afterRender_def unsavedChangesEffect_def checkIfTypebotsAreEqual_def
      mutate_def render_def loadedSession_def emptySession_def spreadUpdates_def noUpdates_def
      draftOnlyStore_def acceptingStore_def draftDocument_def orEmpty_def Let_def)

text \<open>
  C6, amended. What \<open>publishTypebot\<close> does guarantee: when a snapshot exists and the
  Document has recorded no identity, the working copy records the snapshot's identity;
  at a first publication the working copy records the generated identity, and when
  the store accepts the creation that identity is in storage, so the identity is
  mirrored at the moment publication succeeds. When the store refuses the creation,
  the working copy keeps the generated identity and storage holds what it held.
\<close>

theorem publishTypebot_snapshot_identity:
  fixes e :: env and s :: state and l :: Typebot
  defines "newSnapshot \<equiv>
     (parseTypebotToPublicTypebot
        (l\<lparr>publicId_tb := Some (parseDefaultPublicId e (name_tb l) (id_tb l))\<rparr>))
       \<lparr>id_pub := generate e\<rparr>"
  defines "s' \<equiv> publishTypebot e (render s) s"
  assumes "present s = Some l"
  shows "(publishedTypebot s = Some p \<and> publishedTypebotId_tb l = None \<longrightarrow>
            map_option publishedTypebotId_tb (present s') = Some (Some (id_pub p)))
       \<and> (publishedTypebot s = None \<and> createPublishedTypebot e newSnapshot = Inr d \<longrightarrow>
            map_option publishedTypebotId_tb (present s') = Some (Some (generate e))
            \<and> generate e \<in> set (snapshotIdsInStorage e (requests s'))
            \<and> publishedTypebot s' = Some d)
       \<and> (publishedTypebot s = None \<and> createPublishedTypebot e newSnapshot = Inl err \<longrightarrow>
            map_option publishedTypebotId_tb (present s') = Some (Some (generate e))
            \<and> snapshotIdsInStorage e (requests s') = snapshotIdsInStorage e (requests s))"
proof (intro conjI impI)
  assume a: "publishedTypebot s = Some p \<and> publishedTypebotId_tb l = None"
  then have "present s' = Some (l\<lparr>publishedTypebotId_tb := Some (id_pub p)\<rparr>)"
    using publishTypebot_existing_trace(2) [OF assms(3), of p e] by (simp add: s'_def)
  then show "map_option publishedTypebotId_tb (present s') = Some (Some (id_pub p))"
    by simp
next
  assume a: "publishedTypebot s = None \<and> createPublishedTypebot e newSnapshot = Inr d"
  then have n: "publishedTypebot s = None" by blast
  note t = publishTypebot_new_trace [OF assms(3) n, of e, folded newSnapshot_def s'_def]
  show "map_option publishedTypebotId_tb (present s') = Some (Some (generate e))"
    by (simp add: t(1))
  show "generate e \<in> set (snapshotIdsInStorage e (requests s'))"
    using a by (simp add: t(3) snapshotIdsInStorage_append newSnapshot_def)
  show "publishedTypebot s' = Some d"
    using a t(4) by blast
next
  assume a: "publishedTypebot s = None \<and> createPublishedTypebot e newSnapshot = Inl err"
  then have n: "publishedTypebot s = None" by blast
  note t = publishTypebot_new_trace [OF assms(3) n, of e, folded newSnapshot_def s'_def]
  show "map_option publishedTypebotId_tb (present s') = Some (Some (generate e))"
    by (simp add: t(1))
  show "snapshotIdsInStorage e (requests s') = snapshotIdsInStorage e (requests s)"
    using a by (simp add: t(3) snapshotIdsInStorage_append)
qed

text \<open>
  The three runs: a snapshot that the draft document has not recorded, a first
  publication the store accepts, and a first publication whose creation it refuses.
\<close>

theorem publishTypebot_snapshot_identity_witness:
  "present (loadedSession draftDocument (Some liveSnapshot)) = Some draftDocument \<and>
   publishedTypebot (loadedSession draftDocument (Some liveSnapshot)) = Some liveSnapshot \<and>
   publishedTypebotId_tb draftDocument = None \<and>
   map_option publishedTypebotId_tb
     (present (publishTypebot acceptingStore (render (loadedSession draftDocument (Some liveSnapshot)))
                (loadedSession draftDocument (Some liveSnapshot)))) = Some (Some ''snap0'') \<and>
   present (loadedSession draftDocument None) = Some draftDocument \<and>
   publishedTypebot (loadedSession draftDocument None) = None \<and>
   map_option publishedTypebotId_tb
     (present (publishTypebot acceptingStore (render (loadedSession draftDocument None))
                (loadedSession draftDocument None))) = Some (Some ''snap1'') \<and>
   ''snap1'' \<in> set (snapshotIdsInStorage acceptingStore
     (requests (publishTypebot acceptingStore (render (loadedSession draftDocument None))
                (loadedSession draftDocument None)))) \<and>
   snapshotIdsInStorage draftOnlyStore
     (requests (publishTypebot draftOnlyStore (render (loadedSession draftDocument None))
                (loadedSession draftDocument None))) = []"
proof -
  let ?s = "loadedSession draftDocument None"
  let ?sp = "loadedSession draftDocument (Some liveSnapshot)"
  let ?q = "(parseTypebotToPublicTypebot (draftDocument\<lparr>publicId_tb := Some ''bot-tb1''\<rparr>))
             \<lparr>id_pub := ''snap1''\<rparr>"
  have a1: "present ?sp = Some draftDocument" and a2: "publishedTypebot ?sp = Some liveSnapshot"
    and a3: "publishedTypebotId_tb draftDocument = None"
    by (simp_all add: loadedSession_fields draftDocument_fields)
  have i: "id_pub liveSnapshot = ''snap0''" by (simp add: liveSnapshot_def)
  have b1: "present ?s = Some draftDocument" and b2: "publishedTypebot ?s = None"
    by (simp_all add: loadedSession_fields)
  have ok: "createPublishedTypebot acceptingStore
      ((parseTypebotToPublicTypebot
          (draftDocument\<lparr>publicId_tb := Some (parseDefaultPublicId acceptingStore
             (name_tb draftDocument) (id_tb draftDocument))\<rparr>))\<lparr>id_pub := generate acceptingStore\<rparr>)
      = Inr ?q"
    by (simp add: acceptingStore_fields draftDocument_fields)
  have no: "createPublishedTypebot draftOnlyStore
      ((parseTypebotToPublicTypebot
          (draftDocument\<lparr>publicId_tb := Some (parseDefaultPublicId draftOnlyStore
             (name_tb draftDocument) (id_tb draftDocument))\<rparr>))\<lparr>id_pub := generate draftOnlyStore\<rparr>)
      = Inl storeError"
    by (simp add: draftOnlyStore_fields)
  have "map_option publishedTypebotId_tb (present (publishTypebot acceptingStore (render ?sp) ?sp))
      = Some (Some (id_pub liveSnapshot))"
    by (rule publishTypebot_snapshot_identity
          [OF a1, of liveSnapshot acceptingStore ?q storeError, THEN conjunct1, THEN mp,
           OF conjI, OF a2 a3])
  then have c1: "map_option publishedTypebotId_tb
      (present (publishTypebot acceptingStore (render ?sp) ?sp)) = Some (Some ''snap0'')"
    by (simp only: i)
  note accepted = publishTypebot_snapshot_identity
          [OF b1, of liveSnapshot acceptingStore ?q storeError, THEN conjunct2, THEN conjunct1,
           THEN mp, OF conjI, OF b2 ok]
  have c2: "map_option publishedTypebotId_tb
        (present (publishTypebot acceptingStore (render ?s) ?s)) = Some (Some ''snap1'')"
    using accepted [THEN conjunct1] by (simp only: acceptingStore_fields)
  have c3: "''snap1'' \<in> set (snapshotIdsInStorage acceptingStore
            (requests (publishTypebot acceptingStore (render ?s) ?s)))"
    using accepted [THEN conjunct2, THEN conjunct1] by (simp only: acceptingStore_fields)
  note refused = publishTypebot_snapshot_identity
          [OF b1, of liveSnapshot draftOnlyStore ?q storeError, THEN conjunct2, THEN conjunct2,
           THEN mp, OF conjI, OF b2 no]
  have c4: "snapshotIdsInStorage draftOnlyStore
      (requests (publishTypebot draftOnlyStore (render ?s) ?s)) = []"
    using refused [THEN conjunct2] by (simp add: loadedSession_fields)
  from a1 a2 a3 c1 b1 b2 c2 c3 c4 show ?thesis by blast
qed

end
